theory Spec2Isabelle
  imports Complex_Main "HOL-Library.Sublist"
begin

section \<open>JavaScript values\<close>

text \<open>
  The prediction API receives a JSON body and hands JavaScript values to the strategies, and
  the front end reads draw records out of JSON feeds.  Values are modelled as a datatype.
  A number is a double: the finite ones are rationals, and the comparisons used by the code
  agree with the rational order.  A string is a list of characters; the Chinese literals of
  the source are given by their UTF-8 bytes, only their equality matters.
  An object is a list of bindings in insertion order in which a later binding of a key
  shadows an earlier one (as \<^verbatim>\<open>JSON.parse\<close> resolves a repeated key).
\<close>

datatype jsnum = NaN | NegInf | Fin rat | PosInf

datatype jsval =
    JUndefined
  | JNull
  | JBool bool
  | JNum jsnum
  | JStr string
  | JArr "jsval list"
  | JObj "(string \<times> jsval) list"

type_synonym jsobject = "(string \<times> jsval) list"

text \<open>ToBoolean: \<^verbatim>\<open>undefined\<close>, \<^verbatim>\<open>null\<close>, \<^verbatim>\<open>false\<close>, \<^verbatim>\<open>0\<close>, \<^verbatim>\<open>NaN\<close> and \<^verbatim>\<open>""\<close> are falsy.\<close>

fun truthy :: "jsval \<Rightarrow> bool" where
  "truthy JUndefined = False"
| "truthy JNull = False"
| "truthy (JBool b) = b"
| "truthy (JNum n) = (n \<noteq> NaN \<and> n \<noteq> Fin 0)"
| "truthy (JStr s) = (s \<noteq> [])"
| "truthy (JArr xs) = True"
| "truthy (JObj kvs) = True"

text \<open>\<^verbatim>\<open>a || b\<close>\<close>

definition js_or :: "jsval \<Rightarrow> jsval \<Rightarrow> jsval" where
  "js_or a b = (if truthy a then a else b)"

text \<open>\<^verbatim>\<open>Array.isArray\<close>\<close>

fun isArray :: "jsval \<Rightarrow> bool" where
  "isArray (JArr xs) = True"
| "isArray v = False"

text \<open>Own property of an object, as an option, and the property read \<^verbatim>\<open>o.k\<close> of a
  parsed JSON object whose key is not a member of \<^verbatim>\<open>Object.prototype\<close>.\<close>

definition obj_get :: "jsobject \<Rightarrow> string \<Rightarrow> jsval option" where
  "obj_get kvs k = map_of (rev kvs) k"

definition js_get :: "jsobject \<Rightarrow> string \<Rightarrow> jsval" where
  "js_get kvs k = (case obj_get kvs k of None \<Rightarrow> JUndefined | Some v \<Rightarrow> v)"

text \<open>Defining a property in an object literal: an existing key keeps its place and takes
  the new value, a new key is appended.\<close>

definition obj_set :: "jsobject \<Rightarrow> string \<Rightarrow> jsval \<Rightarrow> jsobject" where
  "obj_set kvs k v =
     (if k \<in> fst ` set kvs
      then map (\<lambda>p. if fst p = k then (k, v) else p) kvs
      else kvs @ [(k, v)])"

text \<open>The decimal numeral of an array index, as a property key.\<close>

definition digit_char :: "nat \<Rightarrow> char" where
  "digit_char n = ''0123456789'' ! (n mod 10)"

fun string_of_nat :: "nat \<Rightarrow> string" where
  "string_of_nat n =
     (if n < 10 then [digit_char n] else string_of_nat (n div 10) @ [digit_char (n mod 10)])"

text \<open>The own enumerable properties that the spread \<^verbatim>\<open>{...v}\<close> copies: the bindings of an
  object, the indexed elements of an array, the indexed characters of a string, and nothing
  for \<^verbatim>\<open>undefined\<close>, \<^verbatim>\<open>null\<close>, a boolean or a number.\<close>

fun own_props :: "jsval \<Rightarrow> jsobject" where
  "own_props (JObj kvs) = kvs"
| "own_props (JArr xs) = map (\<lambda>i. (string_of_nat i, xs ! i)) [0..<length xs]"
| "own_props (JStr s) = map (\<lambda>i. (string_of_nat i, JStr [s ! i])) [0..<length s]"
| "own_props v = []"

definition spread_into :: "jsobject \<Rightarrow> jsval \<Rightarrow> jsobject" where
  "spread_into obj v = foldl (\<lambda>acc p. obj_set acc (fst p) (snd p)) obj (own_props v)"

text \<open>An exception: a \<^verbatim>\<open>TypeError\<close> raised by the engine, or an error thrown by a strategy
  with its message.\<close>

datatype js_exn = TypeError | StrategyError string

text \<open>The member read \<^verbatim>\<open>v.k\<close> for a key that no built-in prototype defines: it raises on
  \<^verbatim>\<open>undefined\<close> and \<^verbatim>\<open>null\<close>, reads the binding of an object and is \<^verbatim>\<open>undefined\<close> on
  anything else.\<close>

fun js_member :: "jsval \<Rightarrow> string \<Rightarrow> js_exn + jsval" where
  "js_member JUndefined k = Inl TypeError"
| "js_member JNull k = Inl TypeError"
| "js_member (JObj kvs) k = Inr (js_get kvs k)"
| "js_member v k = Inr JUndefined"

section \<open>The back end's game configuration (server/game\_config.js)\<close>

record game_def =
  gtype :: string
  range_g :: nat
  count :: nat
  special :: "bool option"
  zone2 :: "nat option"
  drawDays :: "nat list"

definition game_daletou :: string where
  "game_daletou = [CHR 0xE5, CHR 0xA4, CHR 0xA7, CHR 0xE6, CHR 0xA8, CHR 0x82, CHR 0xE9, CHR 0x80, CHR 0x8F]"

definition game_weilicai :: string where
  "game_weilicai = [CHR 0xE5, CHR 0xA8, CHR 0x81, CHR 0xE5, CHR 0x8A, CHR 0x9B, CHR 0xE5, CHR 0xBD, CHR 0xA9]"

definition game_jincai539 :: string where
  "game_jincai539 = [CHR 0xE4, CHR 0xBB, CHR 0x8A, CHR 0xE5, CHR 0xBD, CHR 0xA9, CHR 0x35, CHR 0x33, CHR 0x39]"

definition game_3xingcai :: string where
  "game_3xingcai = [CHR 0x33, CHR 0xE6, CHR 0x98, CHR 0x9F, CHR 0xE5, CHR 0xBD, CHR 0xA9]"

definition game_4xingcai :: string where
  "game_4xingcai = [CHR 0x34, CHR 0xE6, CHR 0x98, CHR 0x9F, CHR 0xE5, CHR 0xBD, CHR 0xA9]"

definition GAMES :: "(string \<times> game_def) list" where
  "GAMES =
    [(game_daletou, \<lparr>gtype = ''lotto'', range_g = 49, count = 6, special = Some True,
        zone2 = None, drawDays = [2, 5]\<rparr>),
     (game_weilicai, \<lparr>gtype = ''power'', range_g = 38, count = 6, special = None,
        zone2 = Some 8, drawDays = [1, 4]\<rparr>),
     (game_jincai539, \<lparr>gtype = ''lotto'', range_g = 39, count = 5, special = Some False,
        zone2 = None, drawDays = [1, 2, 3, 4, 5, 6]\<rparr>),
     (game_3xingcai, \<lparr>gtype = ''digit'', range_g = 9, count = 3, special = None,
        zone2 = None, drawDays = [1, 2, 3, 4, 5, 6]\<rparr>),
     (game_4xingcai, \<lparr>gtype = ''digit'', range_g = 9, count = 4, special = None,
        zone2 = None, drawDays = [1, 2, 3, 4, 5, 6]\<rparr>)]"

text \<open>\<^verbatim>\<open>GAME_CONFIG.GAMES\<close> is an object literal, so its prototype is \<^verbatim>\<open>Object.prototype\<close>
  and the read \<^verbatim>\<open>GAME_CONFIG.GAMES[key]\<close> also finds the members inherited from it.  Every
  one of them is a function or an object, hence truthy.\<close>

definition object_prototype_keys :: "string list" where
  "object_prototype_keys =
    [''constructor'', ''__defineGetter__'', ''__defineSetter__'', ''hasOwnProperty'',
     ''__lookupGetter__'', ''__lookupSetter__'', ''isPrototypeOf'', ''propertyIsEnumerable'',
     ''toString'', ''valueOf'', ''__proto__'', ''toLocaleString'']"

datatype game_entry = Registered game_def | Inherited string

definition GAMES_get :: "string \<Rightarrow> game_entry option" where
  "GAMES_get k =
     (case map_of GAMES k of
        Some d \<Rightarrow> Some (Registered d)
      | None \<Rightarrow> if k \<in> set object_prototype_keys then Some (Inherited k) else None)"

section \<open>The prediction dispatcher (POST /api/predict)\<close>

text \<open>
  What the handler takes from its surroundings: whether \<^verbatim>\<open>NODE_ENV\<close> is
  \<^verbatim>\<open>production\<close>, the clock reading \<^verbatim>\<open>new Date().toISOString()\<close>, the message the engine
  gives a \<^verbatim>\<open>TypeError\<close>, and the engine's conversion of a value that is not a string to a
  property key, which raises on some objects.
\<close>

record env =
  production :: bool
  now_iso :: string
  type_error_message :: string
  to_property_key :: "jsval \<Rightarrow> js_exn + string"

text \<open>The parameter bundle handed to a strategy.\<close>

record params =
  p_data :: jsval
  p_gameDef :: game_entry
  p_subModeId :: jsval
  p_excludeNumbers :: jsval
  p_random :: bool
  p_mode :: jsval
  p_setIndex :: jsval
  p_packMode :: jsval
  p_targetCount :: nat
  p_seed :: jsval
  p_userData :: jsval

text \<open>The four strategies live outside the dispatcher: each takes the bundle and returns a
  value or throws.\<close>

record strategies =
  algoBalance :: "params \<Rightarrow> js_exn + jsval"
  algoStat :: "params \<Rightarrow> js_exn + jsval"
  algoPattern :: "params \<Rightarrow> js_exn + jsval"
  algoAI :: "params \<Rightarrow> js_exn + jsval"

record response =
  status :: nat
  body :: jsobject

definition msg_missing :: string where
  "msg_missing = [CHR 0xE7, CHR 0xBC, CHR 0xBA, CHR 0xE5, CHR 0xB0, CHR 0x91, CHR 0xE5, CHR 0xBF, CHR 0x85, CHR 0xE8, CHR 0xA6, CHR 0x81, CHR 0xE5, CHR 0x8F, CHR 0x83, CHR 0xE6, CHR 0x95, CHR 0xB8]"

definition msg_bad_game :: string where
  "msg_bad_game = [CHR 0xE7, CHR 0x84, CHR 0xA1, CHR 0xE6, CHR 0x95, CHR 0x88, CHR 0xE7, CHR 0x9A, CHR 0x84, CHR 0xE9, CHR 0x81, CHR 0x8A, CHR 0xE6, CHR 0x88, CHR 0xB2, CHR 0xE9, CHR 0xA1, CHR 0x9E, CHR 0xE5, CHR 0x9E, CHR 0x8B]"

definition msg_bad_school :: string where
  "msg_bad_school = [CHR 0xE4, CHR 0xB8, CHR 0x8D, CHR 0xE6, CHR 0x94, CHR 0xAF, CHR 0xE6, CHR 0x8F, CHR 0xB4, CHR 0xE7, CHR 0x9A, CHR 0x84, CHR 0xE5, CHR 0xAD, CHR 0xB8, CHR 0xE6, CHR 0xB4, CHR 0xBE]"

definition msg_failed :: string where
  "msg_failed = [CHR 0xE9, CHR 0xA0, CHR 0x90, CHR 0xE6, CHR 0xB8, CHR 0xAC, CHR 0xE5, CHR 0x9F, CHR 0xB7, CHR 0xE8, CHR 0xA1, CHR 0x8C, CHR 0xE5, CHR 0xA4, CHR 0xB1, CHR 0xE6, CHR 0x95, CHR 0x97]"

definition msg_server :: string where
  "msg_server = [CHR 0xE4, CHR 0xBC, CHR 0xBA, CHR 0xE6, CHR 0x9C, CHR 0x8D, CHR 0xE5, CHR 0x99, CHR 0xA8, CHR 0xE9, CHR 0x8C, CHR 0xAF, CHR 0xE8, CHR 0xAA, CHR 0xA4]"

text \<open>The three early returns with status 400.\<close>

definition missing_parameter :: response where
  "missing_parameter =
     \<lparr>status = 400,
      body = [(''error'', JStr msg_missing),
              (''required'', JArr [JStr ''game'', JStr ''school'', JStr ''mode''])]\<rparr>"

definition invalid_game :: "jsval \<Rightarrow> response" where
  "invalid_game game =
     \<lparr>status = 400,
      body = [(''error'', JStr msg_bad_game), (''game'', game),
              (''available'', JArr (map (\<lambda>p. JStr (fst p)) GAMES))]\<rparr>"

definition unsupported_school :: "jsval \<Rightarrow> response" where
  "unsupported_school school =
     \<lparr>status = 400,
      body = [(''error'', JStr msg_bad_school), (''school'', school),
              (''available'', JArr [JStr ''balance'', JStr ''stat'', JStr ''pattern'', JStr ''ai''])]\<rparr>"

text \<open>The \<^verbatim>\<open>catch\<close> block: status 500 with the generic message.\<close>

definition error_message :: "env \<Rightarrow> js_exn \<Rightarrow> string" where
  "error_message e x = (case x of TypeError \<Rightarrow> type_error_message e | StrategyError m \<Rightarrow> m)"

definition prediction_failed :: "env \<Rightarrow> js_exn \<Rightarrow> response" where
  "prediction_failed e x =
     \<lparr>status = 500,
      body = [(''success'', JBool False), (''error'', JStr msg_failed),
              (''message'', JStr (if \<not> production e then error_message e x else msg_server))]\<rparr>"

text \<open>\<^verbatim>\<open>GAME_CONFIG.GAMES[game]\<close>: the key is the string itself, or the engine's conversion
  of any other value.\<close>

definition lookup_game :: "env \<Rightarrow> jsval \<Rightarrow> js_exn + game_entry option" where
  "lookup_game e game =
     (case game of
        JStr s \<Rightarrow> Inr (GAMES_get s)
      | _ \<Rightarrow> (case to_property_key e game of Inl x \<Rightarrow> Inl x | Inr s \<Rightarrow> Inr (GAMES_get s)))"

text \<open>\<^verbatim>\<open>mode.startsWith('pack') ? mode : null\<close>.  Only a string has the method: on any other
  truthy value the member is \<^verbatim>\<open>undefined\<close> (or, on a parsed JSON object that binds the
  name, a value that is not a function) and the call raises a \<^verbatim>\<open>TypeError\<close>.\<close>

fun pack_mode :: "jsval \<Rightarrow> js_exn + jsval" where
  "pack_mode (JStr s) = Inr (if prefix ''pack'' s then JStr s else JNull)"
| "pack_mode v = Inl TypeError"

definition make_params :: "jsobject \<Rightarrow> game_entry \<Rightarrow> js_exn + params" where
  "make_params reqBody gameDef =
     (let mode = js_get reqBody ''mode'';
          setIndex = (case js_get reqBody ''setIndex'' of JUndefined \<Rightarrow> JNum (Fin 0) | v \<Rightarrow> v)
      in case pack_mode mode of
           Inl x \<Rightarrow> Inl x
         | Inr pm \<Rightarrow> Inr
            \<lparr>p_data = js_or (js_get reqBody ''historyData'') (JArr []),
             p_gameDef = gameDef,
             p_subModeId = js_get reqBody ''subMode'',
             p_excludeNumbers = js_or (js_get reqBody ''excludeNumbers'') (JArr []),
             p_random = (mode = JStr ''random''),
             p_mode = mode,
             p_setIndex = setIndex,
             p_packMode = pm,
             p_targetCount = 5,
             p_seed = js_get reqBody ''seed'',
             p_userData = js_get reqBody ''userData''\<rparr>)"

text \<open>The \<^verbatim>\<open>switch (school)\<close>: strict equality with the four names, in the order of the
  cases.\<close>

definition select_strategy ::
    "strategies \<Rightarrow> jsval \<Rightarrow> (string \<times> (params \<Rightarrow> js_exn + jsval)) option" where
  "select_strategy S school =
     (if school = JStr ''balance'' then Some (''balance'', algoBalance S)
      else if school = JStr ''stat'' then Some (''stat'', algoStat S)
      else if school = JStr ''pattern'' then Some (''pattern'', algoPattern S)
      else if school = JStr ''ai'' then Some (''ai'', algoAI S)
      else None)"

text \<open>Response shaping.  An array is wrapped as a pack; anything else is spread into the
  response after \<^verbatim>\<open>success\<close>, and the \<^verbatim>\<open>metadata\<close> property is then defined as the spread
  of \<^verbatim>\<open>result.metadata\<close> followed by the request's \<^verbatim>\<open>game\<close>, \<^verbatim>\<open>school\<close>, \<^verbatim>\<open>mode\<close>, the
  timestamp and the version.\<close>

definition pack_response :: "env \<Rightarrow> jsval \<Rightarrow> jsval \<Rightarrow> jsval \<Rightarrow> jsval list \<Rightarrow> response" where
  "pack_response e game school mode tickets =
     \<lparr>status = 200,
      body = [(''success'', JBool True),
              (''tickets'', JArr tickets),
              (''metadata'', JObj
                 [(''game'', game), (''school'', school), (''mode'', mode),
                  (''count'', JNum (Fin (of_nat (length tickets)))),
                  (''timestamp'', JStr (now_iso e)),
                  (''version'', JStr ''2.0.0'')])]\<rparr>"

definition single_metadata :: "env \<Rightarrow> jsval \<Rightarrow> jsval \<Rightarrow> jsval \<Rightarrow> jsval \<Rightarrow> jsobject" where
  "single_metadata e game school mode own =
     obj_set (obj_set (obj_set (obj_set (obj_set (spread_into [] own)
       ''game'' game) ''school'' school) ''mode'' mode)
       ''timestamp'' (JStr (now_iso e))) ''version'' (JStr ''2.0.0'')"

definition single_response :: "env \<Rightarrow> jsval \<Rightarrow> jsval \<Rightarrow> jsval \<Rightarrow> jsval \<Rightarrow> js_exn + response" where
  "single_response e game school mode result =
     (case js_member result ''metadata'' of
        Inl x \<Rightarrow> Inl x
      | Inr own \<Rightarrow> Inr
         \<lparr>status = 200,
          body = obj_set (spread_into [(''success'', JBool True)] result)
                   ''metadata'' (JObj (single_metadata e game school mode own))\<rparr>)"

definition shape_response :: "env \<Rightarrow> jsval \<Rightarrow> jsval \<Rightarrow> jsval \<Rightarrow> jsval \<Rightarrow> js_exn + response" where
  "shape_response e game school mode result =
     (case result of
        JArr tickets \<Rightarrow> Inr (pack_response e game school mode tickets)
      | _ \<Rightarrow> single_response e game school mode result)"

text \<open>The handler, on the object that the JSON body parser made of the request body.  It
  returns the response together with the names of the strategies it has invoked (none or
  one).\<close>

definition predict :: "env \<Rightarrow> strategies \<Rightarrow> jsobject \<Rightarrow> response \<times> string list" where
  "predict e S reqBody =
     (let game = js_get reqBody ''game'';
          school = js_get reqBody ''school'';
          mode = js_get reqBody ''mode''
      in if \<not> truthy game \<or> \<not> truthy school \<or> \<not> truthy mode then (missing_parameter, [])
         else
           (case lookup_game e game of
              Inl x \<Rightarrow> (prediction_failed e x, [])
            | Inr None \<Rightarrow> (invalid_game game, [])
            | Inr (Some gameDef) \<Rightarrow>
               (case make_params reqBody gameDef of
                  Inl x \<Rightarrow> (prediction_failed e x, [])
                | Inr ps \<Rightarrow>
                   (case select_strategy S school of
                      None \<Rightarrow> (unsupported_school school, [])
                    | Some (name, algo) \<Rightarrow>
                       (case algo ps of
                          Inl x \<Rightarrow> (prediction_failed e x, [name])
                        | Inr result \<Rightarrow>
                           (case shape_response e game school mode result of
                              Inl x \<Rightarrow> (prediction_failed e x, [name])
                            | Inr r \<Rightarrow> (r, [name])))))))"

section \<open>The front end (app.js)\<close>

text \<open>
  What the front end takes from the engine: the conversion of a string and of an array or
  object to a number (\<^verbatim>\<open>Number(v)\<close>), and the time value of \<^verbatim>\<open>new Date(v)\<close>, which is
  absent for an invalid date.  The feeds hold parsed JSON, in which the conversion of an
  object to a number does not raise unless the object rebinds both \<^verbatim>\<open>valueOf\<close> and
  \<^verbatim>\<open>toString\<close>; such objects are left out.
\<close>

record runtime =
  string_to_number :: "string \<Rightarrow> jsnum"
  object_to_number :: "jsval \<Rightarrow> jsnum"
  parse_date :: "jsval \<Rightarrow> int option"

text \<open>\<^verbatim>\<open>Number(v)\<close>\<close>

fun to_number :: "runtime \<Rightarrow> jsval \<Rightarrow> jsnum" where
  "to_number rt (JNum n) = n"
| "to_number rt JUndefined = NaN"
| "to_number rt JNull = Fin 0"
| "to_number rt (JBool b) = (if b then Fin 1 else Fin 0)"
| "to_number rt (JStr s) = string_to_number rt s"
| "to_number rt v = object_to_number rt v"

text \<open>\<^verbatim>\<open>a <= b\<close> and \<^verbatim>\<open>a < b\<close> on numbers: false as soon as one side is \<^verbatim>\<open>NaN\<close>.\<close>

fun js_le :: "jsnum \<Rightarrow> jsnum \<Rightarrow> bool" where
  "js_le NaN b = False"
| "js_le a NaN = False"
| "js_le NegInf b = True"
| "js_le a PosInf = True"
| "js_le PosInf b = False"
| "js_le a NegInf = False"
| "js_le (Fin a) (Fin b) = (a \<le> b)"


subsection \<open>processAndRender\<close>

text \<open>A record of \<^verbatim>\<open>state.rawData\<close>: the item's own fields, with \<^verbatim>\<open>date\<close>, \<^verbatim>\<open>numbers\<close>
  and \<^verbatim>\<open>numbers_size\<close> replaced.\<close>

record draw_record =
  item :: jsobject
  date :: "int option"
  numbers :: "jsnum list"
  numbers_size :: "jsnum list"

text \<open>\<^verbatim>\<open>GAME_CONFIG.GAMES[game]\<close> of the front end's configuration, which is not among the
  sources: a parameter \<open>G\<close>.  A name it does not define gives \<open>None\<close>; a member
  inherited from \<^verbatim>\<open>Object.prototype\<close> has no \<^verbatim>\<open>type\<close> and is treated by the code below as
  \<open>None\<close> is.\<close>

definition minValid :: "game_def option \<Rightarrow> jsnum" where
  "minValid gameDef =
     (case gameDef of
        Some d \<Rightarrow> if gtype d = ''digit'' then Fin 0 else Fin 1
      | None \<Rightarrow> Fin 1)"

definition clean :: "runtime \<Rightarrow> jsnum \<Rightarrow> jsval \<Rightarrow> jsnum list" where
  "clean rt mv arr =
     (case arr of
        JArr xs \<Rightarrow> filter (\<lambda>n. n \<noteq> NaN \<and> js_le mv n) (map (to_number rt) xs)
      | _ \<Rightarrow> [])"

definition truncate_numbers :: "game_def option \<Rightarrow> jsnum list \<Rightarrow> jsnum list" where
  "truncate_numbers gameDef nums =
     (case gameDef of
        Some d \<Rightarrow>
          if gtype d = ''today'' then take 5 nums
          else if gtype d = ''digit'' then take (count d) nums
          else nums
      | None \<Rightarrow> nums)"

definition normalize_item :: "runtime \<Rightarrow> game_def option \<Rightarrow> jsobject \<Rightarrow> draw_record" where
  "normalize_item rt gameDef it =
     (let nums = clean rt (minValid gameDef) (js_get it ''numbers'');
          numsSize = clean rt (minValid gameDef) (js_get it ''numbers_size'')
      in \<lparr>item = it,
          date = parse_date rt (js_get it ''date''),
          numbers = truncate_numbers gameDef nums,
          numbers_size = truncate_numbers gameDef numsSize\<rparr>)"

definition processAndRender ::
    "runtime \<Rightarrow> (string \<Rightarrow> game_def option) \<Rightarrow> (string \<times> jsobject list) list
       \<Rightarrow> (string \<times> draw_record list) list" where
  "processAndRender rt G mergedGames =
     map (\<lambda>p. (fst p, map (normalize_item rt (G (fst p))) (snd p))) mergedGames"

subsection \<open>The jackpot update of initFetch\<close>







subsection \<open>The two merge passes of initFetch\<close>

text \<open>
  \<^verbatim>\<open>mergeLotteryData\<close> (utils.js) is not among the sources; it is modelled from the spec,
  and the two calls below are those of initFetch.  A batch maps a game to its records; the
  merged data are given by their content, the record of each (game, period).
\<close>

type_synonym 'r batch = "(string \<times> 'r list) list"

text \<open>Modelled from the spec: the dedup key of a record is (game, period); these are the
  records of a batch with their keys.\<close>

definition batch_entries :: "('r \<Rightarrow> 'p) \<Rightarrow> 'r batch \<Rightarrow> ((string \<times> 'p) \<times> 'r) list" where
  "batch_entries per b = concat (map (\<lambda>g. map (\<lambda>r. ((fst g, per r), r)) (snd g)) b)"

text \<open>Modelled from the spec: the record a batch supplies for a (game, period); the last
  one, if the batch repeats the key.\<close>

definition batch_map :: "('r \<Rightarrow> 'p) \<Rightarrow> 'r batch \<Rightarrow> ((string \<times> 'p) \<rightharpoonup> 'r)" where
  "batch_map per b = map_of (rev (batch_entries per b))"

text \<open>Modelled from the spec: when two sources supply the same (game, period), the record
  of the higher-precedence source entirely replaces the lower one.\<close>

definition overlay ::
    "('r \<Rightarrow> 'p) \<Rightarrow> ((string \<times> 'p) \<rightharpoonup> 'r) \<Rightarrow> 'r batch \<Rightarrow> ((string \<times> 'p) \<rightharpoonup> 'r)" where
  "overlay per m b = m ++ batch_map per b"

text \<open>Modelled from the spec: \<^verbatim>\<open>mergeLotteryData\<close> of utils.js, which is not among the
  sources.  Its four sources are combined in ascending precedence: the baseline, the archive
  batches in their order, the third source and the fourth; a source that is \<^verbatim>\<open>null\<close>
  contributes nothing.\<close>

definition mergeLotteryData ::
    "('r \<Rightarrow> 'p) \<Rightarrow> 'r batch \<Rightarrow> 'r batch list \<Rightarrow> 'r batch option \<Rightarrow> 'r batch option
       \<Rightarrow> ((string \<times> 'p) \<rightharpoonup> 'r)" where
  "mergeLotteryData per baseData zipResults third fourth =
     (let m1 = foldl (overlay per) (overlay per Map.empty baseData) zipResults;
          m2 = (case third of None \<Rightarrow> m1 | Some b \<Rightarrow> overlay per m1 b)
      in case fourth of None \<Rightarrow> m2 | Some b \<Rightarrow> overlay per m2 b)"

text \<open>The two calls of initFetch: the first passes the local cache as third source, the
  second passes the live batch in that place; the fourth is \<^verbatim>\<open>null\<close> in both.\<close>

definition initial_pass ::
    "('r \<Rightarrow> 'p) \<Rightarrow> 'r batch \<Rightarrow> 'r batch list \<Rightarrow> 'r batch \<Rightarrow> ((string \<times> 'p) \<rightharpoonup> 'r)" where
  "initial_pass per baseData zipResults localCache =
     mergeLotteryData per baseData zipResults (Some localCache) None"

definition refresh_pass ::
    "('r \<Rightarrow> 'p) \<Rightarrow> 'r batch \<Rightarrow> 'r batch list \<Rightarrow> 'r batch \<Rightarrow> ((string \<times> 'p) \<rightharpoonup> 'r)" where
  "refresh_pass per baseData zipResults liveData =
     mergeLotteryData per baseData zipResults (Some liveData) None"

subsection \<open>checkSystemStatus\<close>

text \<open>
  Times are time values in milliseconds since the epoch.  The local time zone of the engine
  is a parameter: the offset it adds to a UTC time value, and the offset it takes off a local
  time value (ECMAScript's LocalTZA in its two readings).
\<close>

record zone =
  tza_utc :: "int \<Rightarrow> int"
  tza_local :: "int \<Rightarrow> int"

definition day_ms :: int where
  "day_ms = 86400000"

definition LocalTime :: "zone \<Rightarrow> int \<Rightarrow> int" where
  "LocalTime z t = t + tza_utc z t"

definition UTC :: "zone \<Rightarrow> int \<Rightarrow> int" where
  "UTC z l = l - tza_local z l"

definition Day :: "int \<Rightarrow> int" where
  "Day t = t div day_ms"

definition TimeWithinDay :: "int \<Rightarrow> int" where
  "TimeWithinDay t = t mod day_ms"

text \<open>The day of the month (1 to 31) of a day number, in the proleptic Gregorian calendar:
  the day within the 400-year cycle that starts on 1 March 2000 modulo 400 years, the year
  and the day within that year, the month counted from March, and the day within it.\<close>

definition DateFromDay :: "int \<Rightarrow> int" where
  "DateFromDay dn =
     (let doe = (dn + 719468) mod 146097;
          yoe = (doe - doe div 1460 + doe div 36524 - doe div 146096) div 365;
          doy = doe - (365 * yoe + yoe div 4 - yoe div 100);
          mp = (5 * doy + 2) div 153
      in doy - (153 * mp + 2) div 5 + 1)"

text \<open>\<^verbatim>\<open>d.getDate()\<close>: the day of the month of the local time.\<close>

definition getDate :: "zone \<Rightarrow> int \<Rightarrow> int" where
  "getDate z t = DateFromDay (Day (LocalTime z t))"

text \<open>\<^verbatim>\<open>d.setDate(dt)\<close>: the local date becomes day \<open>dt\<close> of the month of \<open>d\<close>, where a
  \<open>dt\<close> below 1 or beyond the month counts on into the neighbouring months; the local time
  of day is kept, and the result is converted back to UTC.\<close>

definition setDate :: "zone \<Rightarrow> int \<Rightarrow> int \<Rightarrow> int" where
  "setDate z t dt =
     (let l = LocalTime z t;
          monthStart = Day l - (DateFromDay (Day l) - 1);
          newDay = monthStart + dt - 1
      in UTC z (newDay * day_ms + TimeWithinDay l))"

text \<open>\<^verbatim>\<open>const today = new Date(); const threeDaysAgo = new Date();
  threeDaysAgo.setDate(today.getDate() - 3)\<close>, for the two readings of the clock.\<close>

definition threeDaysAgo :: "zone \<Rightarrow> int \<Rightarrow> int \<Rightarrow> int" where
  "threeDaysAgo z today now = setDate z now (getDate z today - 3)"


text \<open>Two dates compare by their time values, and no comparison holds of an invalid
  date.\<close>

fun date_ge :: "int option \<Rightarrow> int option \<Rightarrow> bool" where
  "date_ge (Some a) (Some b) = (a \<ge> b)"
| "date_ge a b = False"

fun date_gt :: "int option \<Rightarrow> int option \<Rightarrow> bool" where
  "date_gt (Some a) (Some b) = (a > b)"
| "date_gt a b = False"

datatype date_report = NoData | Latest "int option"

datatype system_status = StatusSuccess | StatusError date_report

text \<open>The loop body: the pair is (\<^verbatim>\<open>hasLatestData\<close>, \<^verbatim>\<open>latestDateObj\<close>), the latter
  \<open>None\<close> while it is \<^verbatim>\<open>null\<close>.\<close>

definition status_step ::
    "int \<Rightarrow> bool \<times> int option option \<Rightarrow> string \<times> draw_record list \<Rightarrow> bool \<times> int option option" where
  "status_step limit acc p =
     (case snd p of
        [] \<Rightarrow> acc
      | r # rs \<Rightarrow>
          (let lastDate = date r;
               latestDateObj =
                 (case snd acc of
                    None \<Rightarrow> Some lastDate
                  | Some l \<Rightarrow> if date_gt lastDate l then Some lastDate else Some l);
               hasLatestData = (if date_ge lastDate (Some limit) then True else fst acc)
           in (hasLatestData, latestDateObj)))"

text \<open>checkSystemStatus, for the two readings \<open>today\<close> and \<open>now\<close> of the clock.\<close>

definition checkSystemStatus ::
    "zone \<Rightarrow> int \<Rightarrow> int \<Rightarrow> (string \<times> draw_record list) list \<Rightarrow> system_status" where
  "checkSystemStatus z today now rawData =
     (let acc = foldl (status_step (threeDaysAgo z today now)) (False, None) rawData;
          dataCount = foldl (\<lambda>n curr. n + length curr) 0 (map snd rawData);
          dateStr = (case snd acc of Some l \<Rightarrow> Latest l | None \<Rightarrow> NoData)
      in if dataCount = 0 \<or> \<not> fst acc then StatusError dateStr else StatusSuccess)"





subsection \<open>getNextDrawDate\<close>

text \<open>
  The current date is a day number, counted in local days from 1 January 1970, a Thursday;
  the result is the sentinel \<^verbatim>\<open>"--"\<close> or the day number of the next draw (which the source
  prints as year/month/day) with the label of its weekday.
\<close>

definition weekMap :: "string list" where
  "weekMap =
    [[CHR 0xE6, CHR 0x97, CHR 0xA5], [CHR 0xE4, CHR 0xB8, CHR 0x80], [CHR 0xE4, CHR 0xBA, CHR 0x8C],
     [CHR 0xE4, CHR 0xB8, CHR 0x89], [CHR 0xE5, CHR 0x9B, CHR 0x9B], [CHR 0xE4, CHR 0xBA, CHR 0x94],
     [CHR 0xE5, CHR 0x85, CHR 0xAD]]"

definition getDay :: "int \<Rightarrow> nat" where
  "getDay d = nat ((d + 4) mod 7)"

datatype next_draw = Unscheduled | Scheduled int string

definition daysToAdd :: "nat list \<Rightarrow> nat \<Rightarrow> int" where
  "daysToAdd ds currentDay =
     (case find (\<lambda>d. d > currentDay) ds of
        Some nextDay \<Rightarrow> int nextDay - int currentDay
      | None \<Rightarrow> (7 - int currentDay) + int (hd ds))"

definition getNextDrawDate :: "nat list option \<Rightarrow> int \<Rightarrow> next_draw" where
  "getNextDrawDate dd today =
     (case dd of
        None \<Rightarrow> Unscheduled
      | Some ds \<Rightarrow>
          if length ds = 0 then Unscheduled
          else (let nextDate = today + daysToAdd ds (getDay today)
                in Scheduled nextDate (weekMap ! getDay nextDate)))"

subsection \<open>Pack expansion\<close>

text \<open>Modelled from the spec: the selections of \<open>k\<close> candidates from a pool, in the
  pool's order; the spec calls them the tickets drawable from the pool.\<close>

fun combinations :: "nat \<Rightarrow> 'a list \<Rightarrow> 'a list list" where
  "combinations 0 xs = [[]]"
| "combinations (Suc k) [] = []"
| "combinations (Suc k) (x # xs) = map ((#) x) (combinations k xs) @ combinations (Suc k) xs"

text \<open>Modelled from the spec: \<^verbatim>\<open>PredictionEngine.expandPack\<close> of
  services/prediction-engine.js, which is not among the sources.  The spec has it enumerate
  the complete set of tickets of \<^verbatim>\<open>gameDef.count\<close> numbers drawable from the candidate
  pool, and return an empty sequence for a pool smaller than that.\<close>

definition expandPack :: "'a list \<Rightarrow> game_def \<Rightarrow> 'a list list" where
  "expandPack pool gameDef = combinations (count gameDef) pool"

text \<open>handleCandidateClick, from the source: with the output container present and at
  least one ticket, the tickets are rendered, numbered from 1; otherwise nothing is rendered
  and nothing is raised.\<close>

definition handleCandidateClick :: "bool \<Rightarrow> 'a list \<Rightarrow> game_def \<Rightarrow> ('a list \<times> nat) list option" where
  "handleCandidateClick container pool gameDef =
     (if \<not> container then None
      else (let expandedTickets = expandPack pool gameDef
            in if length expandedTickets > 0
               then Some (map (\<lambda>i. (expandedTickets ! i, i + 1)) [0..<length expandedTickets])
               else None))"

section \<open>Sample inputs\<close>

text \<open>An environment, four strategies and requests for the examples below.  The requests
  name the game by a string, so the key conversion of the environment is never consulted.\<close>

definition sample_env :: env where
  "sample_env =
     \<lparr>production = False, now_iso = ''2025-01-01T00:00:00.000Z'',
      type_error_message = ''mode.startsWith is not a function'',
      to_property_key = (\<lambda>v. Inr ''[object Object]'')\<rparr>"

definition sample_strategies :: strategies where
  "sample_strategies =
     \<lparr>algoBalance = (\<lambda>ps. Inr (JObj
        [(''numbers'', JArr [JNum (Fin 3), JNum (Fin 8)]),
         (''metadata'', JObj [(''game'', JStr ''other''), (''isCandidate'', JBool True)])])),
      algoStat = (\<lambda>ps. Inr (JArr
        [JObj [(''numbers'', JArr [JNum (Fin 1)])], JObj [(''numbers'', JArr [JNum (Fin 2)])]])),
      algoPattern = (\<lambda>ps. Inr (JObj
        [(''numbers'', JArr [JNum (Fin 7)]), (''groupReason'', JStr ''pattern'')])),
      algoAI = (\<lambda>ps. Inl (StrategyError ''no history''))\<rparr>"

definition sample_request :: "string \<Rightarrow> jsval \<Rightarrow> jsobject" where
  "sample_request school mode =
     [(''game'', JStr game_jincai539), (''school'', JStr school), (''mode'', mode)]"

definition inherited_name_request :: jsobject where
  "inherited_name_request =
     [(''game'', JStr ''toString''), (''school'', JStr ''balance''), (''mode'', JStr ''single'')]"

text \<open>An engine for the examples of the front end: it reads a string of decimal digits as
  the number it writes, an empty array as 0 and a number as the time value of a date; the
  examples use no other conversion.\<close>

definition sample_string_to_number :: "string \<Rightarrow> jsnum" where
  "sample_string_to_number s =
     (if list_all (\<lambda>c. c \<in> set ''0123456789'') s
      then Fin (of_nat (foldl (\<lambda>n c. 10 * n + (of_char c - 48)) 0 s))
      else NaN)"

definition sample_runtime :: runtime where
  "sample_runtime =
     \<lparr>string_to_number = sample_string_to_number,
      object_to_number = (\<lambda>v. case v of JArr [] \<Rightarrow> Fin 0 | _ \<Rightarrow> NaN),
      parse_date = (\<lambda>v. case v of JNum (Fin q) \<Rightarrow> Some \<lfloor>q\<rfloor> | _ \<Rightarrow> None)\<rparr>"

definition sample_item :: jsobject where
  "sample_item =
     [(''period'', JStr ''114000001''), (''date'', JNum (Fin 1735689600000)),
      (''numbers'', JArr [JNum (Fin 99), JStr ''12'', JNum (Fin (7 / 2)), JNum (Fin 0), JStr ''x'', JNull]),
      (''numbers_size'', JStr ''1,2,3'')]"



text \<open>Batches whose records are pairs of a period and a label.\<close>

definition sample_cache :: "(nat \<times> string) batch" where
  "sample_cache = [(game_daletou, [(1, ''cached'')])]"

definition sample_feed :: "(nat \<times> string) batch" where
  "sample_feed = [(game_daletou, [(2, ''live'')])]"

definition sample_base :: "(nat \<times> string) batch" where
  "sample_base = [(game_daletou, [(2, ''base''), (3, ''base'')])]"


definition zone_change :: zone where
  "zone_change =
     \<lparr>tza_utc = (\<lambda>t. if t < 1741503600000 then - 18000000 else - 14400000),
      tza_local = (\<lambda>l. if l < 1741485600000 then - 18000000 else - 14400000)\<rparr>"

text \<open>Timelines for the freshness check at the instant of ten days: the newest record two
  days old, and the newest record four days old.\<close>

definition sample_record :: "int \<Rightarrow> draw_record" where
  "sample_record t = \<lparr>item = [], date = Some t, numbers = [], numbers_size = []\<rparr>"



section \<open>Objects\<close>

lemma map_of_map_override:
  "map_of (map (\<lambda>p. if fst p = k then (k, v) else p) xs) k' =
     (if k' = k then (if k \<in> fst ` set xs then Some v else None) else map_of xs k')"
  by (induction xs) force+

lemma obj_get_Nil: "obj_get [] k = None"
  by (simp add: obj_get_def)

lemma obj_get_single: "obj_get [(a, v)] k = (if a = k then Some v else None)"
  by (simp add: obj_get_def)

lemma obj_get_snoc:
  "obj_get (ps @ [p]) k = (if fst p = k then Some (snd p) else obj_get ps k)"
  by (cases p) (simp add: obj_get_def)

lemma obj_get_obj_set:
  "obj_get (obj_set ob k v) k' = (if k' = k then Some v else obj_get ob k')"
proof (cases "k \<in> fst ` set ob")
  case True
  then have "k \<in> fst ` set (rev ob)" by simp
  then show ?thesis
    using True by (simp add: obj_get_def obj_set_def rev_map map_of_map_override)
next
  case False
  then show ?thesis by (simp add: obj_get_def obj_set_def)
qed

lemma obj_get_foldl_set:
  "obj_get (foldl (\<lambda>acc p. obj_set acc (fst p) (snd p)) ob ps) k =
     (case obj_get ps k of Some x \<Rightarrow> Some x | None \<Rightarrow> obj_get ob k)"
proof (induction ps rule: rev_induct)
  case Nil
  then show ?case by (simp add: obj_get_def)
next
  case (snoc p ps)
  then show ?case by (simp add: obj_get_obj_set obj_get_snoc)
qed

lemma obj_get_spread_into:
  "obj_get (spread_into ob v) k =
     (case obj_get (own_props v) k of Some x \<Rightarrow> Some x | None \<Rightarrow> obj_get ob k)"
  by (simp add: spread_into_def obj_get_foldl_set)

lemma obj_get_single_metadata:
  "obj_get (single_metadata e game school mode own) k =
     (if k = ''version'' then Some (JStr ''2.0.0'')
      else if k = ''timestamp'' then Some (JStr (now_iso e))
      else if k = ''mode'' then Some mode
      else if k = ''school'' then Some school
      else if k = ''game'' then Some game
      else obj_get (own_props own) k)"
  by (simp add: single_metadata_def obj_get_obj_set obj_get_spread_into obj_get_Nil
      split: option.split)

section \<open>The dispatcher\<close>

text \<open>A request that passes the three checks and whose bundle is built reaches the selected
  strategy, and the response is shaped from what the strategy returns.\<close>

lemma predict_reach:
  assumes "truthy (js_get reqBody ''game'')"
    and "truthy (js_get reqBody ''school'')"
    and "truthy (js_get reqBody ''mode'')"
    and "lookup_game e (js_get reqBody ''game'') = Inr (Some gameDef)"
    and "make_params reqBody gameDef = Inr ps"
    and "select_strategy S (js_get reqBody ''school'') = Some (name, algo)"
  shows "predict e S reqBody =
     (case algo ps of
        Inl x \<Rightarrow> (prediction_failed e x, [name])
      | Inr result \<Rightarrow>
          (case shape_response e (js_get reqBody ''game'') (js_get reqBody ''school'')
                  (js_get reqBody ''mode'') result of
             Inl x \<Rightarrow> (prediction_failed e x, [name])
           | Inr r \<Rightarrow> (r, [name])))"
  using assms by (simp add: predict_def)

lemma predict_invoke:
  assumes "truthy (js_get reqBody ''game'')"
    and "truthy (js_get reqBody ''school'')"
    and "truthy (js_get reqBody ''mode'')"
    and "lookup_game e (js_get reqBody ''game'') = Inr (Some gameDef)"
    and "make_params reqBody gameDef = Inr ps"
    and "select_strategy S (js_get reqBody ''school'') = Some (name, algo)"
    and "algo ps = Inr result"
  shows "predict e S reqBody =
     (case shape_response e (js_get reqBody ''game'') (js_get reqBody ''school'')
              (js_get reqBody ''mode'') result of
        Inl x \<Rightarrow> (prediction_failed e x, [name])
      | Inr r \<Rightarrow> (r, [name]))"
  using predict_reach [OF assms(1-6)] assms(7) by simp

lemma shape_response_status:
  "shape_response e g s m result = Inr r \<Longrightarrow> status r = 200"
  by (cases result)
     (auto simp: shape_response_def single_response_def pack_response_def split: sum.splits)

lemma registered_truthy: "map_of GAMES g = Some d \<Longrightarrow> truthy (JStr g)"
  by (auto simp: GAMES_def game_jincai539_def game_daletou_def game_weilicai_def
      game_3xingcai_def game_4xingcai_def split: if_splits)

lemma selected_truthy: "select_strategy S school = Some x \<Longrightarrow> truthy school"
  by (auto simp: select_strategy_def split: if_splits)

lemma pack_mode_non_string: "\<forall>s. v \<noteq> JStr s \<Longrightarrow> pack_mode v = Inl TypeError"
  by (cases v) simp_all

text \<open>The three validation failures, where they do happen: a missing field; a game that
  names no member of the registry object; an unregistered school, once the bundle has been
  built from a string mode.  No strategy is invoked.\<close>

lemma predict_invalid_request:
  "\<not> truthy (js_get reqBody ''game'') \<or> \<not> truthy (js_get reqBody ''school'')
      \<or> \<not> truthy (js_get reqBody ''mode'')
     \<Longrightarrow> predict e S reqBody = (missing_parameter, [])"
  "truthy (js_get reqBody ''game'') \<Longrightarrow> truthy (js_get reqBody ''school'')
     \<Longrightarrow> truthy (js_get reqBody ''mode'')
     \<Longrightarrow> lookup_game e (js_get reqBody ''game'') = Inr None
     \<Longrightarrow> predict e S reqBody = (invalid_game (js_get reqBody ''game''), [])"
  "truthy (js_get reqBody ''game'') \<Longrightarrow> truthy (js_get reqBody ''school'')
     \<Longrightarrow> lookup_game e (js_get reqBody ''game'') = Inr (Some gameDef)
     \<Longrightarrow> js_get reqBody ''mode'' = JStr m \<Longrightarrow> m \<noteq> []
     \<Longrightarrow> select_strategy S (js_get reqBody ''school'') = None
     \<Longrightarrow> predict e S reqBody = (unsupported_school (js_get reqBody ''school''), [])"
  by (auto simp: predict_def make_params_def Let_def)

text \<open>An unregistered school together with a numeric mode is answered with status 500: the
  bundle is built, and raises, before the switch on the school.\<close>

lemma unknown_school_numeric_mode:
  "predict e S [(''game'', JStr game_daletou), (''school'', JStr ''xyz''), (''mode'', JNum (Fin 5))]
     = (prediction_failed e TypeError, [])"
  by (simp add: predict_def js_get_def obj_get_def game_daletou_def lookup_game_def GAMES_get_def
      GAMES_def make_params_def)

subsection \<open>The samples\<close>

lemma GAMES_get_jincai:
  "GAMES_get game_jincai539 =
     Some (Registered \<lparr>gtype = ''lotto'', range_g = 39, count = 5, special = Some False,
        zone2 = None, drawDays = [1, 2, 3, 4, 5, 6]\<rparr>)"
  by (simp add: GAMES_get_def GAMES_def game_jincai539_def game_daletou_def game_weilicai_def)

lemma sample_request_get:
  "js_get (sample_request sc m) ''game'' = JStr game_jincai539"
  "js_get (sample_request sc m) ''school'' = JStr sc"
  "js_get (sample_request sc m) ''mode'' = m"
  by (simp_all add: sample_request_def js_get_def obj_get_def)

lemma sample_lookup_game:
  "lookup_game sample_env (js_get (sample_request sc m) ''game'') =
     Inr (Some (Registered \<lparr>gtype = ''lotto'', range_g = 39, count = 5, special = Some False,
        zone2 = None, drawDays = [1, 2, 3, 4, 5, 6]\<rparr>))"
  by (simp add: sample_request_get lookup_game_def GAMES_get_jincai)

lemma sample_make_params:
  "\<exists>ps. make_params (sample_request sc (JStr m)) gd = Inr ps"
  by (simp add: make_params_def sample_request_get Let_def)

lemmas sample_simps =
  sample_env_def sample_strategies_def sample_request_def js_get_def obj_get_def
  game_jincai539_def game_daletou_def game_weilicai_def game_3xingcai_def game_4xingcai_def
  GAMES_get_def GAMES_def lookup_game_def make_params_def select_strategy_def js_or_def

subsection \<open>Response shaping\<close>

text \<open>
  C1.  Take a request that passes validation (the three fields truthy, the game found in the
  registry object, the school one of the four) and whose bundle is built, and let the
  selected strategy return.  If it returns an array, the response is the pack response with
  status 200: its \<^verbatim>\<open>tickets\<close> field is that array and its \<^verbatim>\<open>metadata.count\<close> is the
  array's length.  If it returns a single object, which as a single selection has no
  \<^verbatim>\<open>tickets\<close> field of its own, the response has status 200 and no \<^verbatim>\<open>tickets\<close> field:
  apart from \<^verbatim>\<open>metadata\<close>, its fields are the object's own fields, and \<^verbatim>\<open>success: true\<close>
  where the object has no field of that name.
\<close>

theorem predict_response_shape:
  assumes "truthy (js_get reqBody ''game'')"
    and "truthy (js_get reqBody ''school'')"
    and "truthy (js_get reqBody ''mode'')"
    and "lookup_game e (js_get reqBody ''game'') = Inr (Some gameDef)"
    and "make_params reqBody gameDef = Inr ps"
    and "select_strategy S (js_get reqBody ''school'') = Some (name, algo)"
    and "algo ps = Inr result"
  shows "(\<forall>tickets. result = JArr tickets \<longrightarrow>
            predict e S reqBody =
              (pack_response e (js_get reqBody ''game'') (js_get reqBody ''school'')
                 (js_get reqBody ''mode'') tickets, [name]) \<and>
            status (fst (predict e S reqBody)) = 200 \<and>
            obj_get (body (fst (predict e S reqBody))) ''tickets'' = Some (JArr tickets) \<and>
            (\<exists>md. obj_get (body (fst (predict e S reqBody))) ''metadata'' = Some (JObj md) \<and>
                  obj_get md ''count'' = Some (JNum (Fin (of_nat (length tickets))))))
       \<and> (\<forall>flds. result = JObj flds \<and> obj_get flds ''tickets'' = None \<longrightarrow>
            status (fst (predict e S reqBody)) = 200 \<and>
            snd (predict e S reqBody) = [name] \<and>
            obj_get (body (fst (predict e S reqBody))) ''tickets'' = None \<and>
            (\<forall>k. k \<noteq> ''metadata'' \<longrightarrow>
                 obj_get (body (fst (predict e S reqBody))) k =
                   (case obj_get flds k of
                      Some v \<Rightarrow> Some v
                    | None \<Rightarrow> if k = ''success'' then Some (JBool True) else None)))"
proof (intro conjI allI impI; (elim conjE)?)
  fix tickets
  assume r: "result = JArr tickets"
  have p: "predict e S reqBody =
      (pack_response e (js_get reqBody ''game'') (js_get reqBody ''school'')
         (js_get reqBody ''mode'') tickets, [name])"
    using predict_invoke [OF assms] r by (simp add: shape_response_def)
  show "predict e S reqBody =
      (pack_response e (js_get reqBody ''game'') (js_get reqBody ''school'')
         (js_get reqBody ''mode'') tickets, [name])"
    by (rule p)
  show "status (fst (predict e S reqBody)) = 200"
    by (simp add: p pack_response_def)
  show "obj_get (body (fst (predict e S reqBody))) ''tickets'' = Some (JArr tickets)"
    by (simp add: p pack_response_def obj_get_def)
  show "\<exists>md. obj_get (body (fst (predict e S reqBody))) ''metadata'' = Some (JObj md) \<and>
          obj_get md ''count'' = Some (JNum (Fin (of_nat (length tickets))))"
    by (simp add: p pack_response_def obj_get_def)
next
  fix flds
  assume r: "result = JObj flds" and nt: "obj_get flds ''tickets'' = None"
  let ?md = "single_metadata e (js_get reqBody ''game'') (js_get reqBody ''school'')
      (js_get reqBody ''mode'') (js_get flds ''metadata'')"
  have p: "predict e S reqBody =
      (\<lparr>status = 200,
        body = obj_set (spread_into [(''success'', JBool True)] (JObj flds))
                 ''metadata'' (JObj ?md)\<rparr>, [name])"
    using predict_invoke [OF assms] r by (simp add: shape_response_def single_response_def)
  show "status (fst (predict e S reqBody)) = 200"
    by (simp add: p)
  show "snd (predict e S reqBody) = [name]"
    by (simp add: p)
  have k: "obj_get (body (fst (predict e S reqBody))) k =
             (case obj_get flds k of
                Some v \<Rightarrow> Some v
              | None \<Rightarrow> if k = ''success'' then Some (JBool True) else None)"
    if "k \<noteq> ''metadata''" for k
    using that by (simp add: p obj_get_obj_set obj_get_spread_into obj_get_single
        split: option.split)
  show "obj_get (body (fst (predict e S reqBody))) ''tickets'' = None"
    by (simp add: k nt)
  show "\<And>k. k \<noteq> ''metadata'' \<Longrightarrow> obj_get (body (fst (predict e S reqBody))) k =
             (case obj_get flds k of
                Some v \<Rightarrow> Some v
              | None \<Rightarrow> if k = ''success'' then Some (JBool True) else None)"
    by (rule k)
qed

text \<open>The theorem at two requests: a pack request answered by a strategy that returns two
  tickets, and a single request answered by one that returns an object without
  \<^verbatim>\<open>tickets\<close>.\<close>

theorem predict_response_shape_witness:
  "predict sample_env sample_strategies (sample_request ''stat'' (JStr ''pack_1'')) =
     (pack_response sample_env (JStr game_jincai539) (JStr ''stat'') (JStr ''pack_1'')
        [JObj [(''numbers'', JArr [JNum (Fin 1)])], JObj [(''numbers'', JArr [JNum (Fin 2)])]],
      [''stat''])
   \<and> obj_get (body (fst (predict sample_env sample_strategies
         (sample_request ''balance'' (JStr ''single''))))) ''tickets'' = None"
proof -
  let ?gd = "Registered \<lparr>gtype = ''lotto'', range_g = 39, count = 5, special = Some False,
        zone2 = None, drawDays = [1, 2, 3, 4, 5, 6]\<rparr>"
  let ?rp = "sample_request ''stat'' (JStr ''pack_1'')"
  let ?rs = "sample_request ''balance'' (JStr ''single'')"
  let ?ts = "[JObj [(''numbers'', JArr [JNum (Fin 1)])], JObj [(''numbers'', JArr [JNum (Fin 2)])]]"
  let ?fs = "[(''numbers'', JArr [JNum (Fin 3), JNum (Fin 8)]),
         (''metadata'', JObj [(''game'', JStr ''other''), (''isCandidate'', JBool True)])]"
  have h1: "truthy (js_get (sample_request sc m) ''game'')" for sc m
    by (simp add: sample_request_get game_jincai539_def)
  have p2: "truthy (js_get ?rp ''school'')" and p3: "truthy (js_get ?rp ''mode'')"
    by (simp_all add: sample_request_get)
  obtain pp where pp: "make_params ?rp ?gd = Inr pp"
    using sample_make_params by blast
  have p6: "select_strategy sample_strategies (js_get ?rp ''school'') =
      Some (''stat'', algoStat sample_strategies)"
    by (simp add: sample_request_get select_strategy_def)
  have p7: "algoStat sample_strategies pp = Inr (JArr ?ts)"
    by (simp add: sample_strategies_def)
  have pack: "predict sample_env sample_strategies ?rp =
      (pack_response sample_env (JStr game_jincai539) (JStr ''stat'') (JStr ''pack_1'') ?ts,
       [''stat''])"
    using predict_response_shape [OF h1 p2 p3 sample_lookup_game pp p6 p7]
    by (simp add: sample_request_get)
  have s2: "truthy (js_get ?rs ''school'')" and s3: "truthy (js_get ?rs ''mode'')"
    by (simp_all add: sample_request_get)
  obtain ps where ps: "make_params ?rs ?gd = Inr ps"
    using sample_make_params by blast
  have s6: "select_strategy sample_strategies (js_get ?rs ''school'') =
      Some (''balance'', algoBalance sample_strategies)"
    by (simp add: sample_request_get select_strategy_def)
  have s7: "algoBalance sample_strategies ps = Inr (JObj ?fs)"
    by (simp add: sample_strategies_def)
  have s8: "obj_get ?fs ''tickets'' = None"
    by (simp add: obj_get_def)
  have single:
    "obj_get (body (fst (predict sample_env sample_strategies ?rs))) ''tickets'' = None"
    using predict_response_shape [OF h1 s2 s3 sample_lookup_game ps s6 s7] s8 by blast
  show ?thesis
    using pack single by simp
qed

subsection \<open>Validation\<close>

text \<open>
  C2, at the request \<^verbatim>\<open>{game: "toString", school: "balance", mode: "single"}\<close>.
  \<^verbatim>\<open>toString\<close> is no key of the registry, yet the read \<^verbatim>\<open>GAME_CONFIG.GAMES[game]\<close> finds the
  member inherited from \<^verbatim>\<open>Object.prototype\<close>, which is truthy: whatever the environment and
  the strategies, the handler invokes the balance strategy and the status of its response
  is not 400.
\<close>

theorem inherited_game_name_reaches_strategy:
  "map_of GAMES ''toString'' = None
   \<and> snd (predict e S inherited_name_request) = [''balance'']
   \<and> status (fst (predict e S inherited_name_request)) \<noteq> 400"
proof -
  have n: "map_of GAMES ''toString'' = None"
    by (simp add: GAMES_def game_jincai539_def game_daletou_def game_weilicai_def
        game_3xingcai_def game_4xingcai_def)
  have g: "lookup_game e (js_get inherited_name_request ''game'') =
      Inr (Some (Inherited ''toString''))"
    by (simp add: inherited_name_request_def js_get_def obj_get_def lookup_game_def
        GAMES_get_def n object_prototype_keys_def)
  obtain ps where ps: "make_params inherited_name_request (Inherited ''toString'') = Inr ps"
    by (simp add: make_params_def inherited_name_request_def js_get_def obj_get_def Let_def)
  have t: "truthy (js_get inherited_name_request ''game'')"
      "truthy (js_get inherited_name_request ''school'')"
      "truthy (js_get inherited_name_request ''mode'')"
    by (simp_all add: inherited_name_request_def js_get_def obj_get_def)
  have s: "select_strategy S (js_get inherited_name_request ''school'') =
      Some (''balance'', algoBalance S)"
    by (simp add: inherited_name_request_def js_get_def obj_get_def select_strategy_def)
  have p: "predict e S inherited_name_request =
      (case algoBalance S ps of
         Inl x \<Rightarrow> (prediction_failed e x, [''balance''])
       | Inr result \<Rightarrow>
           (case shape_response e (js_get inherited_name_request ''game'')
                   (js_get inherited_name_request ''school'')
                   (js_get inherited_name_request ''mode'') result of
              Inl x \<Rightarrow> (prediction_failed e x, [''balance''])
            | Inr r \<Rightarrow> (r, [''balance''])))"
    by (rule predict_reach [OF t g ps s])
  show ?thesis
    using n by (auto simp: p prediction_failed_def split: sum.splits dest: shape_response_status)
qed

theorem inherited_game_name_reaches_strategy_witness:
  "snd (predict sample_env sample_strategies inherited_name_request) = [''balance'']"
  using inherited_game_name_reaches_strategy [of sample_env sample_strategies] by simp

subsection \<open>Metadata of a single selection\<close>

text \<open>
  C6, as the code has it.  When the strategy returns an object, the \<^verbatim>\<open>metadata\<close> of the
  response holds the request's \<^verbatim>\<open>game\<close>, \<^verbatim>\<open>school\<close> and \<^verbatim>\<open>mode\<close>, the timestamp and the
  version \<^verbatim>\<open>2.0.0\<close>, whatever the object's own metadata binds these five keys to; every
  other key of the object's own metadata is kept with its value, and there is no further
  key.
\<close>

theorem single_metadata_precedence:
  assumes "truthy (js_get reqBody ''game'')"
    and "truthy (js_get reqBody ''school'')"
    and "truthy (js_get reqBody ''mode'')"
    and "lookup_game e (js_get reqBody ''game'') = Inr (Some gameDef)"
    and "make_params reqBody gameDef = Inr ps"
    and "select_strategy S (js_get reqBody ''school'') = Some (name, algo)"
    and "algo ps = Inr (JObj flds)"
  shows "\<exists>md. obj_get (body (fst (predict e S reqBody))) ''metadata'' = Some (JObj md)
           \<and> obj_get md ''game'' = Some (js_get reqBody ''game'')
           \<and> obj_get md ''school'' = Some (js_get reqBody ''school'')
           \<and> obj_get md ''mode'' = Some (js_get reqBody ''mode'')
           \<and> obj_get md ''timestamp'' = Some (JStr (now_iso e))
           \<and> obj_get md ''version'' = Some (JStr ''2.0.0'')
           \<and> (\<forall>k. k \<notin> {''game'', ''school'', ''mode'', ''timestamp'', ''version''} \<longrightarrow>
                  obj_get md k = obj_get (own_props (js_get flds ''metadata'')) k)"
proof -
  let ?md = "single_metadata e (js_get reqBody ''game'') (js_get reqBody ''school'')
      (js_get reqBody ''mode'') (js_get flds ''metadata'')"
  have p: "predict e S reqBody =
      (\<lparr>status = 200,
        body = obj_set (spread_into [(''success'', JBool True)] (JObj flds))
                 ''metadata'' (JObj ?md)\<rparr>, [name])"
    using predict_invoke [OF assms] by (simp add: shape_response_def single_response_def)
  have "obj_get (body (fst (predict e S reqBody))) ''metadata'' = Some (JObj ?md)"
    by (simp add: p obj_get_obj_set)
  moreover have "obj_get ?md ''game'' = Some (js_get reqBody ''game'')"
    and "obj_get ?md ''school'' = Some (js_get reqBody ''school'')"
    and "obj_get ?md ''mode'' = Some (js_get reqBody ''mode'')"
    and "obj_get ?md ''timestamp'' = Some (JStr (now_iso e))"
    and "obj_get ?md ''version'' = Some (JStr ''2.0.0'')"
    by (simp_all add: obj_get_single_metadata)
  moreover have "\<forall>k. k \<notin> {''game'', ''school'', ''mode'', ''timestamp'', ''version''} \<longrightarrow>
      obj_get ?md k = obj_get (own_props (js_get flds ''metadata'')) k"
    by (simp add: obj_get_single_metadata)
  ultimately show ?thesis by blast
qed

theorem single_metadata_precedence_witness:
  "\<exists>md. obj_get (body (fst (predict sample_env sample_strategies
            (sample_request ''balance'' (JStr ''single''))))) ''metadata'' = Some (JObj md)
        \<and> obj_get md ''game'' = Some (JStr game_jincai539)
        \<and> obj_get md ''timestamp'' = Some (JStr ''2025-01-01T00:00:00.000Z'')
        \<and> obj_get md ''isCandidate'' = Some (JBool True)"
proof -
  let ?gd = "Registered \<lparr>gtype = ''lotto'', range_g = 39, count = 5, special = Some False,
        zone2 = None, drawDays = [1, 2, 3, 4, 5, 6]\<rparr>"
  let ?rs = "sample_request ''balance'' (JStr ''single'')"
  let ?fs = "[(''numbers'', JArr [JNum (Fin 3), JNum (Fin 8)]),
         (''metadata'', JObj [(''game'', JStr ''other''), (''isCandidate'', JBool True)])]"
  have h1: "truthy (js_get ?rs ''game'')" and h2: "truthy (js_get ?rs ''school'')"
    and h3: "truthy (js_get ?rs ''mode'')"
    by (simp_all add: sample_request_get game_jincai539_def)
  obtain ps where ps: "make_params ?rs ?gd = Inr ps"
    using sample_make_params by blast
  have h6: "select_strategy sample_strategies (js_get ?rs ''school'') =
      Some (''balance'', algoBalance sample_strategies)"
    by (simp add: sample_request_get select_strategy_def)
  have h7: "algoBalance sample_strategies ps = Inr (JObj ?fs)"
    by (simp add: sample_strategies_def)
  from single_metadata_precedence [OF h1 h2 h3 sample_lookup_game ps h6 h7]
  obtain md where md:
      "obj_get (body (fst (predict sample_env sample_strategies ?rs))) ''metadata''
        = Some (JObj md)"
      "obj_get md ''game'' = Some (js_get ?rs ''game'')"
      "obj_get md ''timestamp'' = Some (JStr (now_iso sample_env))"
      "\<forall>k. k \<notin> {''game'', ''school'', ''mode'', ''timestamp'', ''version''} \<longrightarrow>
          obj_get md k = obj_get (own_props (js_get ?fs ''metadata'')) k"
    by blast
  from md(4) have "obj_get md ''isCandidate'' = Some (JBool True)"
    by (simp add: js_get_def obj_get_def)
  with md(1,2,3) show ?thesis
    by (auto simp: sample_request_get sample_env_def)
qed

text \<open>The claim as stated fails: the strategy's own metadata binds \<^verbatim>\<open>game\<close> to
  \<^verbatim>\<open>"other"\<close>, and the metadata of the response binds it to the game of the request.\<close>

theorem own_metadata_game_counterexample:
  "js_member (JObj [(''numbers'', JArr [JNum (Fin 3), JNum (Fin 8)]),
       (''metadata'', JObj [(''game'', JStr ''other''), (''isCandidate'', JBool True)])]) ''metadata''
     = Inr (JObj [(''game'', JStr ''other''), (''isCandidate'', JBool True)])
   \<and> js_member (JObj (body (fst (predict sample_env sample_strategies
         (sample_request ''balance'' (JStr ''single'')))))) ''metadata''
     = Inr (JObj [(''game'', JStr game_jincai539), (''isCandidate'', JBool True),
          (''school'', JStr ''balance''), (''mode'', JStr ''single''),
          (''timestamp'', JStr ''2025-01-01T00:00:00.000Z''), (''version'', JStr ''2.0.0'')])"
  by (simp add: predict_def sample_simps shape_response_def single_response_def
      single_metadata_def spread_into_def obj_set_def)

subsection \<open>A mode that is not a string\<close>

text \<open>
  C10.  Let the game be a key of the registry, the school one of the four, and the mode a
  truthy value that is not a string (a number, say).  The presence check passes, building
  the bundle raises at \<^verbatim>\<open>mode.startsWith\<close>, and the request is answered by the \<^verbatim>\<open>catch\<close>
  block: status 500 with the generic failure message, not a validation error with status
  400, and no strategy is invoked.
\<close>

theorem non_string_mode_internal_failure:
  assumes "js_get reqBody ''game'' = JStr g"
    and "map_of GAMES g = Some d"
    and "select_strategy S (js_get reqBody ''school'') = Some (name, algo)"
    and "truthy (js_get reqBody ''mode'')"
    and "\<forall>s. js_get reqBody ''mode'' \<noteq> JStr s"
  shows "predict e S reqBody = (prediction_failed e TypeError, [])
       \<and> status (fst (predict e S reqBody)) = 500
       \<and> obj_get (body (fst (predict e S reqBody))) ''error'' = Some (JStr msg_failed)"
proof -
  have "truthy (js_get reqBody ''game'')"
    using assms(1,2) registered_truthy by simp
  moreover have "truthy (js_get reqBody ''school'')"
    using assms(3) selected_truthy by blast
  moreover have "lookup_game e (js_get reqBody ''game'') = Inr (Some (Registered d))"
    using assms(1,2) by (simp add: lookup_game_def GAMES_get_def)
  moreover have "make_params reqBody (Registered d) = Inl TypeError"
    using pack_mode_non_string [OF assms(5)] by (simp add: make_params_def)
  ultimately have "predict e S reqBody = (prediction_failed e TypeError, [])"
    using assms(4) by (simp add: predict_def)
  then show ?thesis
    by (simp add: prediction_failed_def obj_get_def)
qed

theorem non_string_mode_internal_failure_witness:
  "predict sample_env sample_strategies (sample_request ''balance'' (JNum (Fin 5))) =
     (\<lparr>status = 500,
       body = [(''success'', JBool False), (''error'', JStr msg_failed),
               (''message'', JStr ''mode.startsWith is not a function'')]\<rparr>, [])"
proof -
  let ?r = "sample_request ''balance'' (JNum (Fin 5))"
  have a: "js_get ?r ''game'' = JStr game_jincai539"
    by (simp add: sample_request_get)
  have b: "map_of GAMES game_jincai539 = Some \<lparr>gtype = ''lotto'', range_g = 39, count = 5,
        special = Some False, zone2 = None, drawDays = [1, 2, 3, 4, 5, 6]\<rparr>"
    by (simp add: GAMES_def game_jincai539_def game_daletou_def game_weilicai_def)
  have c: "select_strategy sample_strategies (js_get ?r ''school'') =
      Some (''balance'', algoBalance sample_strategies)"
    by (simp add: sample_request_get select_strategy_def)
  have d: "truthy (js_get ?r ''mode'')" and f: "\<forall>s. js_get ?r ''mode'' \<noteq> JStr s"
    by (simp_all add: sample_request_get)
  from non_string_mode_internal_failure [OF a b c d f, of sample_env]
  have "predict sample_env sample_strategies ?r = (prediction_failed sample_env TypeError, [])"
    by simp
  then show ?thesis
    by (simp add: prediction_failed_def sample_env_def error_message_def)
qed

section \<open>The front end\<close>

subsection \<open>Normalization\<close>

lemma clean_bound: "n \<in> set (clean rt mv arr) \<Longrightarrow> n \<noteq> NaN \<and> js_le mv n"
  by (cases arr) (auto simp: clean_def)

lemma clean_not_array: "\<not> isArray arr \<Longrightarrow> clean rt mv arr = []"
  by (cases arr) (auto simp: clean_def)

lemma truncate_subset: "set (truncate_numbers gd ns) \<subseteq> set ns"
  by (auto simp: truncate_numbers_def split: option.splits if_splits dest: in_set_takeD)

lemma truncate_Nil: "truncate_numbers gd [] = []"
  by (simp add: truncate_numbers_def split: option.splits)

lemma minValid_eq:
  "minValid gd = (if \<exists>d. gd = Some d \<and> gtype d = ''digit'' then Fin 0 else Fin 1)"
  by (auto simp: minValid_def split: option.splits)

text \<open>
  C4, as the code has it.  For every record of every game's timeline after normalization,
  every value of \<^verbatim>\<open>numbers\<close> and of \<^verbatim>\<open>numbers_size\<close> is a number other than \<^verbatim>\<open>NaN\<close> that
  is at least the minimum, 0 for a \<^verbatim>\<open>digit\<close> game and 1 otherwise; a field that is not an
  array becomes the empty sequence; and the sequence is what remains of the array once each
  element is converted with \<^verbatim>\<open>Number\<close>, the \<^verbatim>\<open>NaN\<close> results and the values below the
  minimum are dropped, and the result is cut to 5 values for a \<^verbatim>\<open>today\<close> game and to \<^verbatim>\<open>count\<close>
  values for a \<^verbatim>\<open>digit\<close> game.  Nothing bounds a value by \<^verbatim>\<open>gameDef.range\<close> or makes it an
  integer.
\<close>

theorem normalized_numbers_lower_bound:
  assumes "(game, recs) \<in> set (processAndRender rt G mergedGames)"
    and "r \<in> set recs"
    and "lo = (if \<exists>d. G game = Some d \<and> gtype d = ''digit'' then Fin 0 else Fin 1)"
  shows "(\<forall>n \<in> set (numbers r) \<union> set (numbers_size r). n \<noteq> NaN \<and> js_le lo n)
       \<and> (\<not> isArray (js_get (item r) ''numbers'') \<longrightarrow> numbers r = [])
       \<and> (\<not> isArray (js_get (item r) ''numbers_size'') \<longrightarrow> numbers_size r = [])
       \<and> (\<forall>xs. js_get (item r) ''numbers'' = JArr xs \<longrightarrow>
              numbers r = truncate_numbers (G game)
                (filter (\<lambda>n. n \<noteq> NaN \<and> js_le lo n) (map (to_number rt) xs)))
       \<and> (\<forall>xs. js_get (item r) ''numbers_size'' = JArr xs \<longrightarrow>
              numbers_size r = truncate_numbers (G game)
                (filter (\<lambda>n. n \<noteq> NaN \<and> js_le lo n) (map (to_number rt) xs)))"
proof -
  from assms(1,2) obtain it where r: "r = normalize_item rt (G game) it"
    by (auto simp: processAndRender_def)
  have lo: "lo = minValid (G game)"
    using assms(3) by (simp add: minValid_eq)
  have i: "item r = it"
    by (simp add: r normalize_item_def)
  have n: "numbers r = truncate_numbers (G game) (clean rt lo (js_get it ''numbers''))"
    and s: "numbers_size r = truncate_numbers (G game) (clean rt lo (js_get it ''numbers_size''))"
    by (simp_all add: r lo normalize_item_def)
  have "\<forall>n \<in> set (numbers r) \<union> set (numbers_size r). n \<noteq> NaN \<and> js_le lo n"
    using truncate_subset clean_bound unfolding n s by blast
  moreover have "\<not> isArray (js_get (item r) ''numbers'') \<longrightarrow> numbers r = []"
    by (simp add: i n clean_not_array truncate_Nil)
  moreover have "\<not> isArray (js_get (item r) ''numbers_size'') \<longrightarrow> numbers_size r = []"
    by (simp add: i s clean_not_array truncate_Nil)
  moreover have "\<forall>xs. js_get (item r) ''numbers'' = JArr xs \<longrightarrow>
      numbers r = truncate_numbers (G game)
        (filter (\<lambda>n. n \<noteq> NaN \<and> js_le lo n) (map (to_number rt) xs))"
    by (simp add: i n clean_def)
  moreover have "\<forall>xs. js_get (item r) ''numbers_size'' = JArr xs \<longrightarrow>
      numbers_size r = truncate_numbers (G game)
        (filter (\<lambda>n. n \<noteq> NaN \<and> js_le lo n) (map (to_number rt) xs))"
    by (simp add: i s clean_def)
  ultimately show ?thesis by blast
qed

lemma sample_normalized:
  "processAndRender sample_runtime (map_of GAMES) [(game_daletou, [sample_item])] =
     [(game_daletou,
       [\<lparr>item = sample_item, date = Some 1735689600000,
         numbers = [Fin 99, Fin 12, Fin (7 / 2)], numbers_size = []\<rparr>])]"
  by (simp add: processAndRender_def normalize_item_def GAMES_def game_daletou_def
        minValid_def truncate_numbers_def clean_def)
     (simp add: sample_item_def js_get_def obj_get_def sample_runtime_def
        sample_string_to_number_def)

theorem normalized_numbers_lower_bound_witness:
  "Fin 99 \<noteq> NaN \<and> js_le (Fin 1) (Fin 99) \<and> js_le (Fin 1) (Fin 12) \<and> js_le (Fin 1) (Fin (7 / 2))"
proof -
  let ?r = "\<lparr>item = sample_item, date = Some 1735689600000,
         numbers = [Fin 99, Fin 12, Fin (7 / 2)], numbers_size = []\<rparr>"
  have a: "(game_daletou, [?r]) \<in>
      set (processAndRender sample_runtime (map_of GAMES) [(game_daletou, [sample_item])])"
    by (simp add: sample_normalized)
  have b: "?r \<in> set [?r]"
    by simp
  have c: "Fin 1 = (if \<exists>d. map_of GAMES game_daletou = Some d \<and> gtype d = ''digit''
      then Fin 0 else Fin 1)"
    by (simp add: GAMES_def)
  from normalized_numbers_lower_bound [OF a b c]
  have "\<forall>n \<in> set (numbers ?r) \<union> set (numbers_size ?r). n \<noteq> NaN \<and> js_le (Fin 1) n"
    by blast
  then show ?thesis
    by simp
qed

text \<open>The claim as stated fails: in a game whose range is 49, the numbers 99 and 3.5 of a
  record stay in \<^verbatim>\<open>numbers\<close> after normalization.\<close>

theorem out_of_range_number_counterexample:
  "map_of GAMES game_daletou =
     Some \<lparr>gtype = ''lotto'', range_g = 49, count = 6, special = Some True,
        zone2 = None, drawDays = [2, 5]\<rparr>
   \<and> js_get sample_item ''numbers'' =
       JArr [JNum (Fin 99), JStr ''12'', JNum (Fin (7 / 2)), JNum (Fin 0), JStr ''x'', JNull]
   \<and> map numbers (snd (hd (processAndRender sample_runtime (map_of GAMES)
         [(game_daletou, [sample_item])]))) = [[Fin 99, Fin 12, Fin (7 / 2)]]
   \<and> \<not> js_le (Fin 99) (Fin 49)"
  by (simp add: sample_normalized)
     (simp add: GAMES_def game_daletou_def sample_item_def js_get_def obj_get_def)

subsection \<open>The jackpot table\<close>









subsection \<open>The two merge passes\<close>

lemma overlay_apply:
  "overlay per m b k = (case batch_map per b k of Some r \<Rightarrow> Some r | None \<Rightarrow> m k)"
  by (simp add: overlay_def map_add_def)

text \<open>
  C7, as the code has it.  The refresh pass merges the baseline, the archive batches and
  the live batch: a (game, period) the live batch supplies has the live record, any other
  has the record of the merge of baseline and archives alone.  The local cache is no input
  of the refresh pass, so a (game, period) of the initial pass's output is in the refresh
  pass's output provided the local cache did not supply it.
\<close>

theorem refresh_pass_content:
  "(\<forall>k r. batch_map per liveData k = Some r \<longrightarrow>
        refresh_pass per baseData zipResults liveData k = Some r)
   \<and> (\<forall>k. batch_map per liveData k = None \<longrightarrow>
        refresh_pass per baseData zipResults liveData k =
          mergeLotteryData per baseData zipResults None None k)
   \<and> (\<forall>k. k \<in> dom (initial_pass per baseData zipResults localCache)
          \<and> k \<notin> dom (batch_map per localCache) \<longrightarrow>
        k \<in> dom (refresh_pass per baseData zipResults liveData))"
  by (auto simp: refresh_pass_def initial_pass_def mergeLotteryData_def overlay_apply Let_def
      split: option.splits)

theorem refresh_pass_content_witness:
  "refresh_pass fst sample_base [] sample_feed (game_daletou, 2) = Some (2, ''live'')
   \<and> refresh_pass fst sample_base [] sample_feed (game_daletou, 3) = Some (3, ''base'')"
proof -
  have a: "batch_map fst sample_feed (game_daletou, 2) = Some (2, ''live'')"
    and b: "batch_map fst sample_feed (game_daletou, 3) = None"
    by (simp_all add: batch_map_def batch_entries_def sample_feed_def)
  have c: "mergeLotteryData fst sample_base [] None None (game_daletou, 3) = Some (3, ''base'')"
    by (simp add: mergeLotteryData_def overlay_def batch_map_def batch_entries_def sample_base_def)
  show ?thesis
    using refresh_pass_content [of fst sample_feed sample_base "[]"] a b c by simp
qed

text \<open>The claim as stated fails: a period that only the local cache supplies is in the
  output of the initial pass and not in the output of the refresh pass.\<close>

theorem cache_only_period_counterexample:
  "initial_pass fst [] [] sample_cache (game_daletou, 1) = Some (1, ''cached'')
   \<and> refresh_pass fst [] [] sample_feed (game_daletou, 1) = None"
  by (simp add: initial_pass_def refresh_pass_def mergeLotteryData_def overlay_def
      batch_map_def batch_entries_def sample_cache_def sample_feed_def)

subsection \<open>Freshness\<close>
















text \<open>The day of the month of 1 January 1970, 28 February and 1 March 1970, 29 February
  1972 and 2000, 9 March 2025, 31 December 1969 and 1 January 1570.\<close>

lemma DateFromDay_examples:
  "map DateFromDay [0, 58, 59, 789, 11016, 20156, - 1, - 146097] = [1, 28, 1, 29, 29, 9, 31, 1]"
  by code_simp









text \<open>Across the clock change the limit is 71 hours before now: on 10 March 2025, 16:00 UTC,
  a single record dated 7 March 2025, 16:00 UTC, 72 hours earlier, is stale.\<close>

lemma clock_change_limit:
  "threeDaysAgo zone_change 1741622400000 1741622400000 = 1741366800000
   \<and> checkSystemStatus zone_change 1741622400000 1741622400000
        [(game_daletou, [sample_record 1741363200000])] =
       StatusError (Latest (Some 1741363200000))"
proof -
  have l: "LocalTime zone_change 1741622400000 = 1741608000000"
    by (simp add: LocalTime_def zone_change_def)
  have d: "Day 1741608000000 = 20157" and w: "TimeWithinDay 1741608000000 = 43200000"
    by (simp_all add: Day_def TimeWithinDay_def day_ms_def)
  have m: "DateFromDay 20157 = 10"
    by code_simp
  have u: "UTC zone_change 1741348800000 = 1741366800000"
    by (simp add: UTC_def zone_change_def)
  have t: "threeDaysAgo zone_change 1741622400000 1741622400000 = 1741366800000"
    by (simp add: threeDaysAgo_def setDate_def getDate_def l d w m day_ms_def u)
  show ?thesis
    by (simp add: t checkSystemStatus_def status_step_def sample_record_def)
qed

subsection \<open>The next draw date\<close>

lemma getDay_range: "getDay d < 7"
  by (simp add: getDay_def)

lemma getDay_shift:
  assumes "w \<le> 6"
  shows "getDay (today + (int w - int (getDay today))) = w"
    and "getDay (today + (7 - int (getDay today) + int w)) = w"
proof -
  have c: "int (getDay today) = (today + 4) mod 7"
    by (simp add: getDay_def)
  have "(today + (int w - int (getDay today)) + 4) mod 7 = int w"
    unfolding c using assms by presburger
  then show "getDay (today + (int w - int (getDay today))) = w"
    by (simp add: getDay_def)
  have "(today + (7 - int (getDay today) + int w) + 4) mod 7 = int w"
    unfolding c using assms by presburger
  then show "getDay (today + (7 - int (getDay today) + int w)) = w"
    by (simp add: getDay_def)
qed

lemma find_first_sorted:
  assumes "sorted ds" and "find P ds = Some w" and "d \<in> set ds" and "P d"
  shows "w \<le> (d::nat)"
proof -
  from assms(2) obtain i where i: "i < length ds" "w = ds ! i" "\<forall>j<i. \<not> P (ds ! j)"
    by (auto simp: find_Some_iff)
  from assms(3) obtain j where j: "j < length ds" "d = ds ! j"
    by (auto simp: in_set_conv_nth)
  with assms(4) i(3) have "i \<le> j"
    by (meson not_le_imp_less)
  with assms(1) i j show ?thesis
    by (simp add: sorted_nth_mono)
qed

lemma find_in_set: "find P ds = Some w \<Longrightarrow> w \<in> set ds \<and> P w"
  by (auto simp: find_Some_iff)

text \<open>
  C8, as the code has it.  For an absent or empty \<^verbatim>\<open>drawDays\<close> the result is the sentinel.
  For a non-empty \<^verbatim>\<open>drawDays\<close> in ascending order with weekdays 0 to 6, the result is a date
  one to seven days after today, never today, with the label of its weekday: the smallest
  draw day strictly greater than today's weekday, in this week, and when there is none the
  first draw day of the set, in the next week.
\<close>

theorem next_draw_strictly_after_today:
  assumes "ds \<noteq> []" and "sorted ds" and "\<forall>d \<in> set ds. d \<le> 6"
  shows "getNextDrawDate None today = Unscheduled
       \<and> getNextDrawDate (Some []) today = Unscheduled
       \<and> (\<exists>k w. getNextDrawDate (Some ds) today = Scheduled (today + int k) (weekMap ! w)
           \<and> 1 \<le> k \<and> k \<le> 7 \<and> w \<in> set ds \<and> getDay (today + int k) = w
           \<and> (if \<exists>d \<in> set ds. getDay today < d
               then w = Min {d \<in> set ds. getDay today < d} \<and> k = w - getDay today
               else w = Min (set ds) \<and> k = 7 - getDay today + w))"
proof (intro conjI)
  show "getNextDrawDate None today = Unscheduled"
    and "getNextDrawDate (Some []) today = Unscheduled"
    by (simp_all add: getNextDrawDate_def)
  show "\<exists>k w. getNextDrawDate (Some ds) today = Scheduled (today + int k) (weekMap ! w)
           \<and> 1 \<le> k \<and> k \<le> 7 \<and> w \<in> set ds \<and> getDay (today + int k) = w
           \<and> (if \<exists>d \<in> set ds. getDay today < d
               then w = Min {d \<in> set ds. getDay today < d} \<and> k = w - getDay today
               else w = Min (set ds) \<and> k = 7 - getDay today + w)"
  proof (cases "find (\<lambda>d. getDay today < d) ds")
    case None
    then have no: "\<not> (\<exists>d \<in> set ds. getDay today < d)"
      by (auto simp: find_None_iff)
    obtain x xs where ds: "ds = x # xs"
      using assms(1) by (cases ds) auto
    have hd: "hd ds = Min (set ds)"
      using assms(2) by (auto simp: ds intro!: Min_eqI [symmetric])
    have in6: "hd ds \<le> 6" "hd ds \<in> set ds"
      using assms(3) by (auto simp: ds)
    define k where "k = 7 - getDay today + hd ds"
    have k: "int k = 7 - int (getDay today) + int (hd ds)"
      using getDay_range [of today] by (simp add: k_def)
    have d: "daysToAdd ds (getDay today) = int k"
      unfolding k by (simp add: daysToAdd_def None)
    have g: "getDay (today + int k) = hd ds"
      unfolding k by (rule getDay_shift(2) [OF in6(1)])
    have "getNextDrawDate (Some ds) today = Scheduled (today + int k) (weekMap ! hd ds)"
      using assms(1) by (simp add: getNextDrawDate_def Let_def d g)
    moreover have "1 \<le> k" "k \<le> 7"
      using getDay_range [of today] no in6 by (auto simp: k_def)
    ultimately show ?thesis
      using no hd in6(2) g k_def by (intro exI [of _ k] exI [of _ "hd ds"]) simp
  next
    case (Some w)
    then have w: "w \<in> set ds" "getDay today < w"
      using find_in_set by fastforce+
    then have ex: "\<exists>d \<in> set ds. getDay today < d"
      by blast
    have w6: "w \<le> 6"
      using assms(3) w by blast
    have min: "w = Min {d \<in> set ds. getDay today < d}"
      using w find_first_sorted [OF assms(2) Some]
      by (intro Min_eqI [symmetric]) auto
    define k where "k = w - getDay today"
    have k: "int k = int w - int (getDay today)"
      using w by (simp add: k_def)
    have d: "daysToAdd ds (getDay today) = int k"
      unfolding k by (simp add: daysToAdd_def Some)
    have g: "getDay (today + int k) = w"
      unfolding k by (rule getDay_shift(1) [OF w6])
    have "getNextDrawDate (Some ds) today = Scheduled (today + int k) (weekMap ! w)"
      using assms(1) by (simp add: getNextDrawDate_def Let_def d g)
    moreover have "1 \<le> k" "k \<le> 7"
      using w w6 by (auto simp: k_def)
    ultimately show ?thesis
      using ex min w(1) g k_def by (intro exI [of _ k] exI [of _ w]) simp
  qed
qed

theorem next_draw_strictly_after_today_witness:
  "getNextDrawDate (Some [1, 4]) 6 = Scheduled 7 (weekMap ! 4)"
proof -
  have a: "[1, 4] \<noteq> ([]::nat list)" and b: "sorted [1, 4::nat]" and c: "\<forall>d \<in> set [1, 4::nat]. d \<le> 6"
    by simp_all
  have g: "getDay 6 = 3"
    by (simp add: getDay_def)
  have e: "\<exists>d \<in> set [1, 4::nat]. getDay 6 < d"
    by (simp add: g)
  from next_draw_strictly_after_today [OF a b c, of 6]
  have "\<exists>k w. getNextDrawDate (Some [1, 4]) 6 = Scheduled (6 + int k) (weekMap ! w)
           \<and> 1 \<le> k \<and> k \<le> 7 \<and> w \<in> set [1, 4::nat] \<and> getDay (6 + int k) = w
           \<and> (if \<exists>d \<in> set [1, 4::nat]. getDay 6 < d
               then w = Min {d \<in> set [1, 4::nat]. getDay 6 < d} \<and> k = w - getDay 6
               else w = Min (set [1, 4::nat]) \<and> k = 7 - getDay 6 + w)"
    by blast
  then obtain k w where kw: "getNextDrawDate (Some [1, 4]) 6 = Scheduled (6 + int k) (weekMap ! w)"
      "w \<in> set [1, 4::nat]" "getDay (6 + int k) = w"
      "w = Min {d \<in> set [1, 4::nat]. getDay 6 < d} \<and> k = w - getDay 6"
    using e by (auto split: if_splits)
  have "{d \<in> set [1, 4::nat]. getDay 6 < d} = {4}"
    by (auto simp: g)
  with kw(4) have "w = 4" "k = 1"
    by (simp_all add: g)
  with kw(1) show ?thesis by simp
qed

text \<open>The claim as stated fails: on a Tuesday (weekday 2) with the draw days 2 and 5, the
  result is the Friday three days later, not today.\<close>

theorem draw_day_today_counterexample:
  "getDay 5 = 2 \<and> getNextDrawDate (Some [2, 5]) 5 = Scheduled 8 (weekMap ! 5)"
  by (simp add: getDay_def getNextDrawDate_def daysToAdd_def)

subsection \<open>Pack expansion\<close>

lemma combinations_set:
  "set (combinations k xs) = {ys. subseq ys xs \<and> length ys = k}"
proof (induction k xs rule: combinations.induct)
  case (1 xs)
  then show ?case by auto
next
  case (2 k)
  then show ?case by auto
next
  case (3 k x xs)
  show ?case
  proof (intro set_eqI iffI)
    fix ys
    assume "ys \<in> set (combinations (Suc k) (x # xs))"
    then show "ys \<in> {ys. subseq ys (x # xs) \<and> length ys = Suc k}"
      using 3 by auto
  next
    fix ys
    assume a: "ys \<in> {ys. subseq ys (x # xs) \<and> length ys = Suc k}"
    then obtain y ys' where ys: "ys = y # ys'" "length ys' = k"
      by (cases ys) auto
    show "ys \<in> set (combinations (Suc k) (x # xs))"
    proof (cases "y = x")
      case True
      then have "subseq ys' xs" using a ys by simp
      then show ?thesis using 3 ys True by auto
    next
      case False
      then have "subseq ys xs" using a ys by simp
      then show ?thesis using 3 ys a by auto
    qed
  qed
qed

lemma combinations_short: "length xs < k \<Longrightarrow> combinations k xs = []"
  by (induction k xs rule: combinations.induct) auto

lemma combinations_exact: "length xs = k \<Longrightarrow> combinations k xs = [xs]"
  by (induction k xs rule: combinations.induct) (auto simp: combinations_short)

text \<open>
  C9.  Pack expansion lists exactly the tickets of \<^verbatim>\<open>gameDef.count\<close> candidates drawable
  from the pool, in the pool's order; a pool with fewer candidates gives the empty sequence,
  for which the caller renders nothing and raises nothing; a pool of exactly
  \<^verbatim>\<open>gameDef.count\<close> candidates gives the one ticket that is the pool.
\<close>

theorem expandPack_complete:
  "set (expandPack pool gameDef) = {t. subseq t pool \<and> length t = count gameDef}
   \<and> (length pool < count gameDef \<longrightarrow>
        expandPack pool gameDef = [] \<and> handleCandidateClick True pool gameDef = None)
   \<and> (length pool = count gameDef \<longrightarrow> expandPack pool gameDef = [pool])"
  by (simp add: expandPack_def handleCandidateClick_def combinations_set combinations_short
      combinations_exact)

theorem expandPack_complete_witness:
  "expandPack [3::nat, 8] \<lparr>gtype = ''digit'', range_g = 9, count = 3, special = None,
        zone2 = None, drawDays = [1, 2, 3, 4, 5, 6]\<rparr> = []
   \<and> expandPack [3::nat, 8, 9] \<lparr>gtype = ''digit'', range_g = 9, count = 3, special = None,
        zone2 = None, drawDays = [1, 2, 3, 4, 5, 6]\<rparr> = [[3, 8, 9]]"
  using expandPack_complete [of "[3::nat, 8]" "\<lparr>gtype = ''digit'', range_g = 9, count = 3,
        special = None, zone2 = None, drawDays = [1, 2, 3, 4, 5, 6]\<rparr>"]
    expandPack_complete [of "[3::nat, 8, 9]" "\<lparr>gtype = ''digit'', range_g = 9, count = 3,
        special = None, zone2 = None, drawDays = [1, 2, 3, 4, 5, 6]\<rparr>"]
  by simp

end
